theory Spec2Isabelle
  imports Main
begin

section \<open>Python values, exceptions and attribute access\<close>

text \<open>
  A Python \<open>str\<close> is a sequence of Unicode code points. Every string of the program
  (key characters, paths, labels, warnings) is a list of code points; \<open>ustr\<close> writes
  an ASCII literal as such a list.
\<close>

type_synonym pystr = "nat list"

definition ustr :: "string \<Rightarrow> pystr" where
  "ustr s = map of_char s"

text \<open>
  The objects of \<open>pynput\<close> that reach the program are duck-typed: the code reads the
  attributes \<open>char\<close>, \<open>value\<close> and \<open>vk\<close> and relies on \<open>AttributeError\<close> where
  one is missing. The values such an attribute can hold are \<open>None\<close>, an \<open>int\<close> or a
  \<open>str\<close>.
\<close>

datatype pyval = PyNone | PyInt int | PyStr pystr

datatype pyerr =
    AttributeError
  | TypeError
  | ValueError pystr
  | NotImplementedError
  | RuntimeError
  | LookupFailure

text \<open>
  The object found under \<open>key.value\<close> (for a member of pynput's \<open>Key\<close> enumeration,
  a \<open>KeyCode\<close>): all the code reads of it is the attribute \<open>vk\<close>, which may be missing.
\<close>

record key_value =
  value_vk :: "pyval option"

text \<open>
  A raw key as the listener hands it to the callback. Each field is \<open>None\<close> when the
  object has no such attribute and \<open>Some v\<close> when the attribute exists and holds \<open>v\<close>
  (so \<open>Some PyNone\<close> is an attribute that exists and holds Python's \<open>None\<close>).
\<close>

record raw_key =
  char_attr :: "pyval option"
  value_attr :: "key_value option"
  vk_attr :: "pyval option"

text \<open>Attribute access \<open>obj.name\<close>: the value, or \<open>AttributeError\<close>.\<close>

definition getattr_py :: "'a option \<Rightarrow> pyerr + 'a" where
  "getattr_py a = (case a of None \<Rightarrow> Inl AttributeError | Some v \<Rightarrow> Inr v)"

text \<open>Sequencing of two steps, the first of which may raise.\<close>

definition and_then :: "pyerr + 'a \<Rightarrow> ('a \<Rightarrow> pyerr + 'b) \<Rightarrow> pyerr + 'b" where
  "and_then m f = (case m of Inl e \<Rightarrow> Inl e | Inr v \<Rightarrow> f v)"

text \<open>
  \<open>try: body except AttributeError: handler\<close>. Only \<open>AttributeError\<close> is caught; any
  other exception of the body propagates.
\<close>

definition except_AttributeError :: "pyerr + 'a \<Rightarrow> pyerr + 'a \<Rightarrow> pyerr + 'a" where
  "except_AttributeError body handler =
     (case body of
        Inl e \<Rightarrow> (if e = AttributeError then handler else Inl e)
      | Inr v \<Rightarrow> Inr v)"

text \<open>
  The method call \<open>v.lower()\<close>. Only a \<open>str\<close> has the method; on \<open>None\<close> and on an
  \<open>int\<close> the lookup of \<open>lower\<close> raises \<open>AttributeError\<close>. The lower-casing of
  code points itself is the Unicode table of the Python runtime, which is not part of
  the repository: it is the parameter \<open>lower\<close>.
\<close>

definition call_lower :: "(pystr \<Rightarrow> pystr) \<Rightarrow> pyval \<Rightarrow> pyerr + pyval" where
  "call_lower lower v =
     (case v of PyStr s \<Rightarrow> Inr (PyStr (lower s)) | PyNone \<Rightarrow> Inl AttributeError
      | PyInt i \<Rightarrow> Inl AttributeError)"

text \<open>
  The builtin \<open>ord\<close>: the code point of a string of length one, \<open>TypeError\<close> on
  anything else.
\<close>

definition py_ord :: "pyval \<Rightarrow> pyerr + pyval" where
  "py_ord v =
     (case v of
        PyStr s \<Rightarrow> (case s of [c] \<Rightarrow> Inr (PyInt (int c)) | _ \<Rightarrow> Inl TypeError)
      | PyNone \<Rightarrow> Inl TypeError
      | PyInt i \<Rightarrow> Inl TypeError)"

text \<open>
  Lower-casing restricted to ASCII; it agrees with Python's \<open>str.lower\<close> on ASCII
  strings and serves as the concrete \<open>lower\<close> wherever a definition is evaluated.
\<close>

definition ascii_lower :: "pystr \<Rightarrow> pystr" where
  "ascii_lower s = map (\<lambda>c. if 65 \<le> c \<and> c \<le> 90 then c + 32 else c) s"



section \<open>\<open>lib/py/app.py\<close>: the key identifier\<close>

text \<open>
  \<^verbatim>\<open>
  def key_to_id(key):
      try:
          key_id = ord(key.char.lower())
      except AttributeError:
          try:
              key_id = key.value.vk
          except AttributeError:
              key_id = key.vk
      return key_id
  \<close>
\<close>

definition key_to_id :: "(pystr \<Rightarrow> pystr) \<Rightarrow> raw_key \<Rightarrow> pyerr + pyval" where
  "key_to_id lower key =
     except_AttributeError
       (and_then (and_then (getattr_py (char_attr key)) (call_lower lower)) py_ord)
       (except_AttributeError
          (and_then (getattr_py (value_attr key)) (\<lambda>v. getattr_py (value_vk v)))
          (getattr_py (vk_attr key)))"

text \<open>The three shapes of a raw key that the algorithm distinguishes.\<close>

definition has_lower :: "pyval \<Rightarrow> bool" where
  "has_lower v = (case v of PyStr s \<Rightarrow> True | PyNone \<Rightarrow> False | PyInt i \<Rightarrow> False)"

definition has_char :: "raw_key \<Rightarrow> bool" where
  "has_char key = (case char_attr key of None \<Rightarrow> False | Some v \<Rightarrow> has_lower v)"

definition nested_vk :: "raw_key \<Rightarrow> pyval option" where
  "nested_vk key = (case value_attr key of None \<Rightarrow> None | Some v \<Rightarrow> value_vk v)"

text \<open>
  The two fallback levels on their own: the nested \<open>key.value.vk\<close> first, the key's
  own \<open>vk\<close> second.
\<close>

definition vk_fallback :: "raw_key \<Rightarrow> pyerr + pyval" where
  "vk_fallback key =
     (case nested_vk key of Some n \<Rightarrow> Inr n | None \<Rightarrow> getattr_py (vk_attr key))"


section \<open>Formatting\<close>

text \<open>
  \<open>str\<close> of an \<open>int\<close>: decimal, a leading minus sign for a negative number.
\<close>

function str_nat :: "nat \<Rightarrow> pystr" where
  "str_nat n = (if n < 10 then [48 + n] else str_nat (n div 10) @ [48 + n mod 10])"
  by pat_completeness auto
termination
  by (relation "measure id") auto

declare str_nat.simps [simp del]

definition str_int :: "int \<Rightarrow> pystr" where
  "str_int i = (if i < 0 then 45 # str_nat (nat (- i)) else str_nat (nat i))"

text \<open>A replacement field \<open>{v}\<close> of an f-string without a format spec: \<open>str(v)\<close>.\<close>

definition py_format :: "pyval \<Rightarrow> pystr" where
  "py_format v =
     (case v of PyInt i \<Rightarrow> str_int i | PyNone \<Rightarrow> ustr ''None'' | PyStr s \<Rightarrow> s)"

text \<open>
  \<open>datetime.now().strftime('%Y-%m-%d-%H-%M')\<close>: year, then month, day, hour and
  minute as two digits each, joined by hyphens. Seconds and microseconds of the
  reading do not take part.
\<close>

record datetime =
  dt_year :: nat
  dt_month :: nat
  dt_day :: nat
  dt_hour :: nat
  dt_minute :: nat
  dt_second :: nat
  dt_microsecond :: nat

definition pad2 :: "nat \<Rightarrow> pystr" where
  "pad2 n = (if n < 10 then 48 # str_nat n else str_nat n)"

definition strftime_minute :: "datetime \<Rightarrow> pystr" where
  "strftime_minute d =
     str_nat (dt_year d) @ ustr ''-'' @ pad2 (dt_month d) @ ustr ''-'' @ pad2 (dt_day d)
       @ ustr ''-'' @ pad2 (dt_hour d) @ ustr ''-'' @ pad2 (dt_minute d)"


section \<open>The world outside the session\<close>

text \<open>
  Every call on a collaborator and every output is an event; the world keeps them in
  the order in which they happen.
\<close>

datatype event =
    EyeTrackerGaze_new
  | Gaze_open
  | Gaze_start
  | Gaze_stop
  | Gaze_close
  | Gaze_to_csv pystr pystr
  | Listener_new
  | Listener_start
  | Listener_stop
  | Warn pystr
  | Sleep nat
  | Makedirs pystr

text \<open>
  \<open>clock\<close> is the reading of the wall clock that \<open>datetime.now()\<close> returns in
  this world; \<open>dirs\<close> the paths that exist in the file system; \<open>gaze_buf\<close> the samples the gaze source has buffered, oldest first (screen
  coordinates, taken as integers as in the specification's scenario);
  \<open>csv_rows\<close> every row appended to a file so far, with the path of its file, in the
  order of writing.
\<close>

record world =
  clock :: datetime
  dirs :: "pystr list"
  gaze_buf :: "(int \<times> int) list"
  csv_rows :: "(pystr \<times> pystr) list"
  trace :: "event list"

definition emit :: "event \<Rightarrow> world \<Rightarrow> world" where
  "emit e w = w\<lparr>trace := trace w @ [e]\<rparr>"

text \<open>\<open>warn(s)\<close> of \<open>lib/py/app.py\<close> prints one line; \<open>sleep(n)\<close> waits.\<close>

definition warn :: "pystr \<Rightarrow> world \<Rightarrow> world" where
  "warn s w = emit (Warn s) w"

definition sleep :: "nat \<Rightarrow> world \<Rightarrow> world" where
  "sleep n w = emit (Sleep n) w"

text \<open>\<open>os.makedirs(d)\<close>: the directory exists afterwards.\<close>

definition makedirs :: "pystr \<Rightarrow> world \<Rightarrow> world" where
  "makedirs d w = emit (Makedirs d) (w\<lparr>dirs := dirs w @ [d]\<rparr>)"

definition path_exists :: "pystr \<Rightarrow> world \<Rightarrow> bool" where
  "path_exists d w = (d \<in> set (dirs w))"

text \<open>
  Modelled from the spec: the gaze source \<open>EyeTrackerGaze\<close>
  (\<open>lib/py/eyetracker_gaze\<close>), whose code is missing. The operations \<open>open\<close>,
  \<open>start\<close>, \<open>stop\<close> and \<open>close\<close> are recorded as events.
  \<open>to_csv(path, label)\<close> drains the buffer: each buffered sample becomes one row
  \<open>gaze_x,gaze_y,<label>\<close> appended to the file at \<open>path\<close>, oldest first, and the
  buffer is empty afterwards.

  The specification does not describe the constructor \<open>EyeTrackerGaze()\<close>. Its call
  is recorded as the event \<open>EyeTrackerGaze_new\<close>, which stands for whatever the
  constructor does, to the device or otherwise; the constructor is taken to return.
\<close>

definition EyeTrackerGaze_init :: "world \<Rightarrow> world" where
  "EyeTrackerGaze_init w = emit EyeTrackerGaze_new w"

definition gaze_open :: "world \<Rightarrow> world" where
  "gaze_open w = emit Gaze_open w"

definition gaze_start :: "world \<Rightarrow> world" where
  "gaze_start w = emit Gaze_start w"

definition gaze_stop :: "world \<Rightarrow> world" where
  "gaze_stop w = emit Gaze_stop w"

definition gaze_close :: "world \<Rightarrow> world" where
  "gaze_close w = emit Gaze_close w"

definition csv_row :: "pystr \<Rightarrow> int \<times> int \<Rightarrow> pystr" where
  "csv_row label g = str_int (fst g) @ ustr '','' @ str_int (snd g) @ ustr '','' @ label"

definition to_csv :: "pystr \<Rightarrow> pystr \<Rightarrow> world \<Rightarrow> world" where
  "to_csv path label w =
     emit (Gaze_to_csv path label)
       (w\<lparr>csv_rows := csv_rows w @ map (\<lambda>g. (path, csv_row label g)) (gaze_buf w),
          gaze_buf := []\<rparr>)"

text \<open>
  pynput's \<open>keyboard.Listener\<close> is a thread: \<open>is_alive()\<close> holds from \<open>start()\<close>
  until the thread has ended, and a thread can be started only once
  (\<open>RuntimeError\<close> otherwise). \<open>stop()\<close> asks the thread to end and returns without
  waiting for it: the listener it leaves is still alive. That the thread has ended,
  some time after the request, is a step of the environment, \<open>thread_ended\<close>.
\<close>

record listener =
  started :: bool
  alive :: bool

definition Listener_init :: "world \<Rightarrow> listener \<times> world" where
  "Listener_init w = (\<lparr>started = False, alive = False\<rparr>, emit Listener_new w)"

definition is_alive :: "listener \<Rightarrow> bool" where
  "is_alive l = alive l"

definition listener_start :: "listener \<Rightarrow> world \<Rightarrow> pyerr + listener \<times> world" where
  "listener_start l w =
     (if started l then Inl RuntimeError
      else Inr (l\<lparr>started := True, alive := True\<rparr>, emit Listener_start w))"

definition listener_stop :: "listener \<Rightarrow> world \<Rightarrow> listener \<times> world" where
  "listener_stop l w = (l, emit Listener_stop w)"

definition thread_ended :: "listener \<Rightarrow> listener" where
  "thread_ended l = l\<lparr>alive := False\<rparr>"


section \<open>\<open>lib/py/hud_learn.py\<close>: module state\<close>

text \<open>
  \<^verbatim>\<open>
  _conf = config()
  LOG_RAW_ROOTDIR = _conf['EVENTLOG_RAW_ROOTDIR']
  LOG_HUD_SUBDIR = _conf['EVENTLOG_HUD_SUBDIR']
  NOW = datetime.now().strftime('%Y-%m-%d-%H-%M')
  \<close>
  The three names are bound once, when the module is loaded: \<open>NOW\<close> is the reading
  of the clock at that moment. The configuration file is not part of the repository;
  its two entries are parameters.
\<close>

record config =
  EVENTLOG_RAW_ROOTDIR :: pystr
  EVENTLOG_HUD_SUBDIR :: pystr

record hud_learn_module =
  LOG_RAW_ROOTDIR :: pystr
  LOG_HUD_SUBDIR :: pystr
  NOW :: pystr

definition module_load :: "config \<Rightarrow> world \<Rightarrow> hud_learn_module" where
  "module_load conf w =
     \<lparr>LOG_RAW_ROOTDIR = EVENTLOG_RAW_ROOTDIR conf,
      LOG_HUD_SUBDIR = EVENTLOG_HUD_SUBDIR conf,
      NOW = strftime_minute (clock w)\<rparr>"


section \<open>\<open>lib/py/hud_learn.py\<close>: the session\<close>

text \<open>
  The collecting handler owns the keyboard listener and the path of the log; the
  session owns the handler and the reference to the HUD's state. Only a collecting
  handler can exist, the constructors of the other two raise.
\<close>

record HUDDataCollect =
  keyb_listener :: listener
  logpath :: pystr

record 'h HUDLearn =
  hud_state :: 'h
  handler :: HUDDataCollect

text \<open>
  \<^verbatim>\<open>
  def datafile_path(self):
      logdir =  Path(LOG_RAW_ROOTDIR, LOG_HUD_SUBDIR)
      if not logdir.exists():
          os.makedirs(logdir)
      return str(Path(logdir, f'{NOW}.csv'))
  \<close>
  The joining of two path segments by \<open>pathlib\<close> is the parameter \<open>Path\<close>.
\<close>

definition datafile_path ::
  "(pystr \<Rightarrow> pystr \<Rightarrow> pystr) \<Rightarrow> hud_learn_module \<Rightarrow> world \<Rightarrow> pystr \<times> world" where
  "datafile_path Path m w =
     (let logdir = Path (LOG_RAW_ROOTDIR m) (LOG_HUD_SUBDIR m);
          w' = (if \<not> path_exists logdir w then makedirs logdir w else w)
      in (Path logdir (NOW m @ ustr ''.csv''), w'))"

text \<open>
  \<^verbatim>\<open>
  class _HUDDataCollect(object):
      def __init__(self, hud_learn):
          self.hud_learn = hud_learn
          self._keyb_listener = Keyboard.Listener(on_press=self._on_keypress)
          self._logpath = self.hud_learn.datafile_path
  class _HUDTrain(object):
      def __init__(self, hud_learn):
          raise NotImplementedError
  class _HUDInfer(object):
      def __init__(self, hud_learn):
          raise NotImplementedError
  \<close>
\<close>

definition HUDDataCollect_init ::
  "(pystr \<Rightarrow> pystr \<Rightarrow> pystr) \<Rightarrow> hud_learn_module \<Rightarrow> world \<Rightarrow> HUDDataCollect \<times> world" where
  "HUDDataCollect_init Path m w =
     (let (l, w1) = Listener_init w;
          (p, w2) = datafile_path Path m w1
      in (\<lparr>keyb_listener = l, logpath = p\<rparr>, w2))"

definition HUDTrain_init :: "world \<Rightarrow> (pyerr + HUDDataCollect) \<times> world" where
  "HUDTrain_init w = (Inl NotImplementedError, w)"

definition HUDInfer_init :: "world \<Rightarrow> (pyerr + HUDDataCollect) \<times> world" where
  "HUDInfer_init w = (Inl NotImplementedError, w)"

text \<open>
  \<^verbatim>\<open>
  def __init__(self, hud_state, mode):
      self.hud_state = hud_state
      self.gazepoint = EyeTrackerGaze()
      self._handler = None
      handler = {
          'collect'   : _HUDDataCollect,
          'train'     : _HUDTrain,
          'infer'     : _HUDInfer
      }.get(mode, None)
      if not handler:
          raise ValueError(f'Unsupported mode: {mode}')
      self._handler = handler(self)
  \<close>
  An exception does not undo what happened before it: the constructor returns the
  world it leaves behind together with the session or the exception.
\<close>

datatype handler_class = HUDDataCollect_class | HUDTrain_class | HUDInfer_class

definition handler_table :: "(pystr \<times> handler_class) list" where
  "handler_table =
     [(ustr ''collect'', HUDDataCollect_class),
      (ustr ''train'', HUDTrain_class),
      (ustr ''infer'', HUDInfer_class)]"

definition construct_handler ::
  "(pystr \<Rightarrow> pystr \<Rightarrow> pystr) \<Rightarrow> hud_learn_module \<Rightarrow> handler_class \<Rightarrow> world
     \<Rightarrow> (pyerr + HUDDataCollect) \<times> world" where
  "construct_handler Path m c w =
     (case c of
        HUDDataCollect_class \<Rightarrow>
          (let (h, w') = HUDDataCollect_init Path m w in (Inr h, w'))
      | HUDTrain_class \<Rightarrow> HUDTrain_init w
      | HUDInfer_class \<Rightarrow> HUDInfer_init w)"

definition HUDLearn_init ::
  "(pystr \<Rightarrow> pystr \<Rightarrow> pystr) \<Rightarrow> hud_learn_module \<Rightarrow> 'h \<Rightarrow> pystr \<Rightarrow> world
     \<Rightarrow> (pyerr + 'h HUDLearn) \<times> world" where
  "HUDLearn_init Path m hud mode w =
     (let w1 = EyeTrackerGaze_init w in
      case map_of handler_table mode of
        None \<Rightarrow> (Inl (ValueError (ustr ''Unsupported mode: '' @ mode)), w1)
      | Some c \<Rightarrow>
          (case construct_handler Path m c w1 of
             (Inl e, w2) \<Rightarrow> (Inl e, w2)
           | (Inr h, w2) \<Rightarrow> (Inr \<lparr>hud_state = hud, handler = h\<rparr>, w2)))"

text \<open>
  \<^verbatim>\<open>
  def start(self):
      if self._handler.async_proc.is_alive():
          warn('HUDLearn received START but is already running.')
      else:
          self.gazepoint.open()
          self.gazepoint.start()
          self._handler.async_proc.start()
          sleep(1)  # Give the threads time to spin up
      return self._handler.async_proc
  \<close>
  \<open>async_proc\<close> is the handler's listener. The session is Running exactly when that
  listener is alive.
\<close>

definition async_proc :: "'h HUDLearn \<Rightarrow> listener" where
  "async_proc s = keyb_listener (handler s)"

definition set_async_proc :: "listener \<Rightarrow> 'h HUDLearn \<Rightarrow> 'h HUDLearn" where
  "set_async_proc l s = s\<lparr>handler := (handler s)\<lparr>keyb_listener := l\<rparr>\<rparr>"

definition running :: "'h HUDLearn \<Rightarrow> bool" where
  "running s = is_alive (async_proc s)"

definition start :: "'h HUDLearn \<Rightarrow> world \<Rightarrow> (pyerr + listener) \<times> 'h HUDLearn \<times> world" where
  "start s w =
     (if is_alive (async_proc s) then
        (Inr (async_proc s), s, warn (ustr ''HUDLearn received START but is already running.'') w)
      else
        (let w1 = gaze_open w; w2 = gaze_start w1 in
         case listener_start (async_proc s) w2 of
           Inl e \<Rightarrow> (Inl e, s, w2)
         | Inr (l, w3) \<Rightarrow> (Inr l, set_async_proc l s, sleep 1 w3)))"

text \<open>
  \<^verbatim>\<open>
  def stop(self):
      if not self._handler.async_proc.is_alive():
          warn('Keyboard watcher received STOP but is not running.')
      else:
          self.gazepoint.stop()
          self.gazepoint.close()
          self._handler.async_proc.stop()
      return self._handler.async_proc
  \<close>
\<close>

definition stop :: "'h HUDLearn \<Rightarrow> world \<Rightarrow> listener \<times> 'h HUDLearn \<times> world" where
  "stop s w =
     (if \<not> is_alive (async_proc s) then
        (async_proc s, s, warn (ustr ''Keyboard watcher received STOP but is not running.'') w)
      else
        (let w1 = gaze_stop w; w2 = gaze_close w1;
             (l, w3) = listener_stop (async_proc s) w2
         in (l, set_async_proc l s, w3)))"

text \<open>
  \<^verbatim>\<open>
  def _on_keypress(self, key):
      key_id = key_to_id(key)
      centr = self.hud_learn.hud_state.hud.active_panel.btn_frompayload(
          key_id).centroid  # (x, y)
      self.hud_learn.gazepoint.to_csv(
          self._logpath, label=f'{centr[0]}, {centr[1]}, {key_id}')
  \<close>
  The panel of the HUD is not part of the repository: the lookup of a button by its
  payload, through the session's reference to the HUD's state, is the parameter
  \<open>btn_frompayload\<close>; whatever it raises leaves the callback. The centroid of a
  button is a pair \<open>(x, y)\<close>; each field of the f-string is the \<open>str\<close> of its value.
\<close>

record button =
  centroid :: "pyval \<times> pyval"

definition on_keypress ::
  "(pystr \<Rightarrow> pystr) \<Rightarrow> ('h \<Rightarrow> pyval \<Rightarrow> pyerr + button) \<Rightarrow> 'h HUDLearn \<Rightarrow> raw_key \<Rightarrow> world
     \<Rightarrow> (pyerr + unit) \<times> world" where
  "on_keypress lower btn_frompayload s key w =
     (case key_to_id lower key of
        Inl e \<Rightarrow> (Inl e, w)
      | Inr key_id \<Rightarrow>
          (case btn_frompayload (hud_state s) key_id of
             Inl e \<Rightarrow> (Inl e, w)
           | Inr btn \<Rightarrow>
               (let centr = centroid btn in
                (Inr (),
                 to_csv (logpath (handler s))
                   (py_format (fst centr) @ ustr '', '' @ py_format (snd centr) @ ustr '', ''
                      @ py_format key_id) w))))"


section \<open>What the specification says, for comparison\<close>

text \<open>
  The label as the specification writes it: the two coordinates of the centroid and
  the key identifier, separated by single commas.
\<close>

definition spec_label :: "pyval \<times> pyval \<Rightarrow> pyval \<Rightarrow> pystr" where
  "spec_label centr key_id =
     py_format (fst centr) @ ustr '','' @ py_format (snd centr) @ ustr '','' @ py_format key_id"

text \<open>
  The teardown that reverses a startup: the last component started is the first
  stopped; what was opened is closed, what was started is stopped. A wait has nothing
  to undo.
\<close>

fun undo_event :: "event \<Rightarrow> event option" where
  "undo_event Gaze_open = Some Gaze_close"
| "undo_event Gaze_start = Some Gaze_stop"
| "undo_event Listener_start = Some Listener_stop"
| "undo_event EyeTrackerGaze_new = None"
| "undo_event Gaze_stop = None"
| "undo_event Gaze_close = None"
| "undo_event (Gaze_to_csv p l) = None"
| "undo_event Listener_new = None"
| "undo_event Listener_stop = None"
| "undo_event (Warn m) = None"
| "undo_event (Sleep n) = None"
| "undo_event (Makedirs d) = None"

definition reverse_teardown :: "event list \<Rightarrow> event list" where
  "reverse_teardown startup = List.map_filter undo_event (rev startup)"

text \<open>The events an operation adds to the world: those of \<open>w'\<close> beyond those of \<open>w\<close>.\<close>

definition new_events :: "world \<Rightarrow> world \<Rightarrow> event list" where
  "new_events w w' = drop (length (trace w)) (trace w')"


text \<open>
  The path of the log as the specification describes it: root directory, subdirectory
  and a file named after the minute at which the session is started, that is, after
  the clock of the world in which the session is constructed and started.
\<close>

definition spec_logpath :: "(pystr \<Rightarrow> pystr \<Rightarrow> pystr) \<Rightarrow> config \<Rightarrow> world \<Rightarrow> pystr" where
  "spec_logpath Path conf w_session =
     Path (Path (EVENTLOG_RAW_ROOTDIR conf) (EVENTLOG_HUD_SUBDIR conf))
       (strftime_minute (clock w_session) @ ustr ''.csv'')"


text \<open>
  Construction that is all-or-nothing, as the specification asks of a rejected mode:
  when the constructor raises, nothing has been constructed or created on the way,
  the world is left as it was found.
\<close>

definition all_or_nothing :: "world \<Rightarrow> (pyerr + 'h HUDLearn) \<times> world \<Rightarrow> bool" where
  "all_or_nothing w res =
     (case fst res of
        Inl e \<Rightarrow> new_events w (snd res) = [] \<and> dirs (snd res) = dirs w
                 \<and> csv_rows (snd res) = csv_rows w
      | Inr s \<Rightarrow> True)"


section \<open>Concrete inputs\<close>

text \<open>
  A configuration, a joining of path segments with a slash (what \<open>pathlib\<close> does for
  a relative second segment), a module loaded at 10:00:12 and a world whose clock
  reads 10:05:40 when the session is constructed.
\<close>

definition posix_join :: "pystr \<Rightarrow> pystr \<Rightarrow> pystr" where
  "posix_join a b = a @ ustr ''/'' @ b"

definition ex_conf :: config where
  "ex_conf = \<lparr>EVENTLOG_RAW_ROOTDIR = ustr ''/data/raw'', EVENTLOG_HUD_SUBDIR = ustr ''hud''\<rparr>"

definition ex_world_load :: world where
  "ex_world_load =
     \<lparr>clock = \<lparr>dt_year = 2020, dt_month = 3, dt_day = 7, dt_hour = 10, dt_minute = 0,
               dt_second = 12, dt_microsecond = 5\<rparr>,
      dirs = [], gaze_buf = [], csv_rows = [], trace = []\<rparr>"

definition ex_module :: hud_learn_module where
  "ex_module = module_load ex_conf ex_world_load"

definition ex_world :: world where
  "ex_world =
     \<lparr>clock = \<lparr>dt_year = 2020, dt_month = 3, dt_day = 7, dt_hour = 10, dt_minute = 5,
               dt_second = 40, dt_microsecond = 0\<rparr>,
      dirs = [], gaze_buf = [], csv_rows = [], trace = []\<rparr>"

text \<open>
  The session that the constructor builds there in mode \<open>collect\<close>, the same session
  once started, and the started session once the thread of its listener has ended.
\<close>

definition ex_logpath :: pystr where
  "ex_logpath = ustr ''/data/raw/hud/2020-03-07-10-00.csv''"

definition ex_session :: "unit HUDLearn" where
  "ex_session =
     \<lparr>hud_state = (),
      handler = \<lparr>keyb_listener = \<lparr>started = False, alive = False\<rparr>, logpath = ex_logpath\<rparr>\<rparr>"

definition ex_running :: "unit HUDLearn" where
  "ex_running =
     \<lparr>hud_state = (),
      handler = \<lparr>keyb_listener = \<lparr>started = True, alive = True\<rparr>, logpath = ex_logpath\<rparr>\<rparr>"

definition ex_stopped :: "unit HUDLearn" where
  "ex_stopped =
     \<lparr>hud_state = (),
      handler = \<lparr>keyb_listener = \<lparr>started = True, alive = False\<rparr>, logpath = ex_logpath\<rparr>\<rparr>"

text \<open>
  The scenario of the specification: three buffered samples, a panel whose button for
  the key identifier 97 has the centroid (150, 250), and the key \<open>A\<close> as pynput's
  \<open>KeyCode.from_char\<close> builds it (\<open>vk\<close> is \<open>None\<close>).
\<close>

definition ex_world_gaze :: world where
  "ex_world_gaze = ex_world\<lparr>gaze_buf := [(100, 200), (101, 201), (99, 199)]\<rparr>"

definition ex_panel :: "unit \<Rightarrow> pyval \<Rightarrow> pyerr + button" where
  "ex_panel h key_id =
     (if key_id = PyInt 97 then Inr \<lparr>centroid = (PyInt 150, PyInt 250)\<rparr>
      else Inl LookupFailure)"

definition ex_key :: raw_key where
  "ex_key = \<lparr>char_attr = Some (PyStr [65]), value_attr = None, vk_attr = Some PyNone\<rparr>"



text \<open>The world after \<open>start\<close> of the fresh session in \<open>ex_world\<close>.\<close>

definition ex_world_started :: world where
  "ex_world_started = ex_world\<lparr>trace := [Gaze_open, Gaze_start, Listener_start, Sleep 1]\<rparr>"


section \<open>Properties of the key identifier\<close>

lemmas key_shape_defs =
  has_char_def has_lower_def nested_vk_def vk_fallback_def getattr_py_def py_ord_def


lemma key_to_id_no_char:
  "\<not> has_char key \<Longrightarrow> key_to_id lower key = vk_fallback key"
  by (cases "char_attr key"; cases "value_attr key")
    (auto simp: key_to_id_def has_char_def has_lower_def getattr_py_def and_then_def
      call_lower_def except_AttributeError_def vk_fallback_def nested_vk_def
      split: pyval.splits option.splits)




text \<open>
  C10. A \<open>char\<close> attribute that exists but holds a value without a \<open>lower\<close> method
  (\<open>None\<close>, as for pynput's \<open>KeyCode\<close> of a key without a character) makes
  \<open>key.char.lower()\<close> raise \<open>AttributeError\<close>, the exception the handler catches:
  the key is identified exactly as the same key without a \<open>char\<close> attribute, by the
  nested \<open>value.vk\<close> and then by the key's own \<open>vk\<close>, and the identification
  succeeds whenever one of the two exists.
\<close>

theorem key_to_id_char_without_lower:
  "char_attr key = Some v \<Longrightarrow> \<not> has_lower v \<Longrightarrow>
     key_to_id lower key = key_to_id lower (key\<lparr>char_attr := None\<rparr>)
     \<and> key_to_id lower key = vk_fallback key
     \<and> (nested_vk key \<noteq> None \<or> vk_attr key \<noteq> None \<longrightarrow>
          (\<exists>n. key_to_id lower key = Inr n))"
proof -
  assume c: "char_attr key = Some v" and l: "\<not> has_lower v"
  from c l have n: "\<not> has_char key"
    by (simp add: has_char_def)
  have n': "\<not> has_char (key\<lparr>char_attr := None\<rparr>)"
    by (simp add: has_char_def)
  have f: "vk_fallback (key\<lparr>char_attr := None\<rparr>) = vk_fallback key"
    by (simp add: vk_fallback_def nested_vk_def split: option.splits)
  have e: "key_to_id lower key = vk_fallback key"
    using n by (rule key_to_id_no_char)
  have e': "key_to_id lower (key\<lparr>char_attr := None\<rparr>) = vk_fallback key"
    using key_to_id_no_char [OF n'] f by simp
  have s: "nested_vk key \<noteq> None \<or> vk_attr key \<noteq> None \<longrightarrow> (\<exists>n. vk_fallback key = Inr n)"
    by (auto simp: vk_fallback_def getattr_py_def split: option.splits)
  from e e' s show ?thesis by simp
qed

theorem key_to_id_char_without_lower_witness:
  "key_to_id ascii_lower \<lparr>char_attr = Some PyNone, value_attr = None, vk_attr = Some (PyInt 65437)\<rparr>
     = key_to_id ascii_lower \<lparr>char_attr = None, value_attr = None, vk_attr = Some (PyInt 65437)\<rparr>
   \<and> key_to_id ascii_lower \<lparr>char_attr = Some PyNone, value_attr = None, vk_attr = Some (PyInt 65437)\<rparr>
     = Inr (PyInt 65437)"
  using key_to_id_char_without_lower [of
      "\<lparr>char_attr = Some PyNone, value_attr = None, vk_attr = Some (PyInt 65437)\<rparr>"
      PyNone ascii_lower]
  by (auto simp: key_shape_defs)


section \<open>Properties of the session lifecycle\<close>

lemmas fmt_defs =
  ustr_def str_int_def str_nat.simps pad2_def strftime_minute_def py_format_def

lemmas world_defs =
  emit_def warn_def sleep_def makedirs_def path_exists_def EyeTrackerGaze_init_def
  gaze_open_def gaze_start_def gaze_stop_def gaze_close_def to_csv_def csv_row_def
  Listener_init_def is_alive_def listener_start_def listener_stop_def

lemmas session_defs =
  running_def async_proc_def set_async_proc_def new_events_def

lemmas ex_defs =
  posix_join_def ex_conf_def ex_world_load_def ex_module_def ex_world_def ex_logpath_def
  ex_session_def ex_running_def ex_stopped_def ex_world_gaze_def ex_panel_def ex_key_def
  ex_world_started_def

lemma start_alive:
  "running s \<Longrightarrow> start s w =
     (Inr (async_proc s), s,
      w\<lparr>trace := trace w @ [Warn (ustr ''HUDLearn received START but is already running.'')]\<rparr>)"
  by (simp add: start_def running_def warn_def emit_def)

lemma start_fresh:
  "\<not> running s \<Longrightarrow> \<not> started (async_proc s) \<Longrightarrow> start s w =
     (Inr ((async_proc s)\<lparr>started := True, alive := True\<rparr>),
      set_async_proc ((async_proc s)\<lparr>started := True, alive := True\<rparr>) s,
      w\<lparr>trace := trace w @ [Gaze_open, Gaze_start, Listener_start, Sleep 1]\<rparr>)"
  by (simp add: start_def running_def world_defs)

lemma stop_not_alive:
  "\<not> running s \<Longrightarrow> stop s w =
     (async_proc s, s,
      w\<lparr>trace := trace w @ [Warn (ustr ''Keyboard watcher received STOP but is not running.'')]\<rparr>)"
  by (simp add: stop_def running_def warn_def emit_def)

lemma stop_alive:
  "running s \<Longrightarrow> stop s w =
     (async_proc s, s, w\<lparr>trace := trace w @ [Gaze_stop, Gaze_close, Listener_stop]\<rparr>)"
  by (simp add: stop_def running_def async_proc_def set_async_proc_def world_defs)

lemma ex_start:
  "start ex_session ex_world = (Inr \<lparr>started = True, alive = True\<rparr>, ex_running, ex_world_started)"
  by (simp add: start_def async_proc_def set_async_proc_def world_defs ex_defs)

text \<open>
  C3. \<open>start\<close> on a Running session changes nothing and starts nothing: the session
  is returned as it was and is still Running, the one event added to the world is the
  warning (no open or start of the gaze source, no new or started listener), and the
  value returned is the session's own listener.
\<close>

theorem start_while_running_is_noop:
  "running s \<Longrightarrow>
     start s w =
       (Inr (async_proc s), s,
        w\<lparr>trace := trace w @
             [Warn (ustr ''HUDLearn received START but is already running.'')]\<rparr>)
     \<and> running (fst (snd (start s w)))
     \<and> new_events w (snd (snd (start s w))) =
         [Warn (ustr ''HUDLearn received START but is already running.'')]"
  by (simp add: start_alive new_events_def)

text \<open>
  The fresh session of the example, started once and then once more: the second call
  returns the same listener and the same session, and adds the warning alone.
\<close>

theorem start_while_running_is_noop_witness:
  "start ex_session ex_world =
     (Inr \<lparr>started = True, alive = True\<rparr>, ex_running, ex_world_started)
   \<and> running ex_running
   \<and> start ex_running ex_world_started =
     (Inr \<lparr>started = True, alive = True\<rparr>, ex_running,
      ex_world\<lparr>trace := [Gaze_open, Gaze_start, Listener_start, Sleep 1,
         Warn (ustr ''HUDLearn received START but is already running.'')]\<rparr>)"
  using start_while_running_is_noop [of ex_running ex_world_started] ex_start
  by (simp add: session_defs is_alive_def ex_defs)

text \<open>
  C4. \<open>stop\<close> on a Stopped session (never started, or started and stopped) changes
  nothing and stops nothing: the session is returned as it was and is still Stopped,
  the one event added to the world is the warning (no stop or close of the gaze
  source, no stop of the listener), and the value returned is the session's own
  listener.
\<close>

theorem stop_while_stopped_is_noop:
  "\<not> running s \<Longrightarrow>
     stop s w =
       (async_proc s, s,
        w\<lparr>trace := trace w @
             [Warn (ustr ''Keyboard watcher received STOP but is not running.'')]\<rparr>)
     \<and> \<not> running (fst (snd (stop s w)))
     \<and> new_events w (snd (snd (stop s w))) =
         [Warn (ustr ''Keyboard watcher received STOP but is not running.'')]"
  by (simp add: stop_not_alive new_events_def)

text \<open>
  The running session of the example is stopped: the listener returned is still
  alive. Once its thread has ended the session is Stopped, and a second \<open>stop\<close>
  adds the warning alone.
\<close>

theorem stop_while_stopped_is_noop_witness:
  "stop ex_running ex_world =
     (\<lparr>started = True, alive = True\<rparr>, ex_running,
      ex_world\<lparr>trace := [Gaze_stop, Gaze_close, Listener_stop]\<rparr>)
   \<and> set_async_proc (thread_ended (async_proc ex_running)) ex_running = ex_stopped
   \<and> \<not> running ex_stopped
   \<and> stop ex_stopped (ex_world\<lparr>trace := [Gaze_stop, Gaze_close, Listener_stop]\<rparr>) =
     (\<lparr>started = True, alive = False\<rparr>, ex_stopped,
      ex_world\<lparr>trace := [Gaze_stop, Gaze_close, Listener_stop,
         Warn (ustr ''Keyboard watcher received STOP but is not running.'')]\<rparr>)"
  using stop_while_stopped_is_noop
    [of ex_stopped "ex_world\<lparr>trace := [Gaze_stop, Gaze_close, Listener_stop]\<rparr>"]
  by (simp add: stop_def thread_ended_def session_defs world_defs ex_defs)


section \<open>Properties of the construction\<close>

lemma init_unknown:
  "mode \<notin> {ustr ''collect'', ustr ''train'', ustr ''infer''} \<Longrightarrow>
   HUDLearn_init Path m hud mode w =
     (Inl (ValueError (ustr ''Unsupported mode: '' @ mode)),
      w\<lparr>trace := trace w @ [EyeTrackerGaze_new]\<rparr>)"
  by (simp add: HUDLearn_init_def handler_table_def EyeTrackerGaze_init_def emit_def)

lemma init_train:
  "HUDLearn_init Path m hud (ustr ''train'') w =
     (Inl NotImplementedError, w\<lparr>trace := trace w @ [EyeTrackerGaze_new]\<rparr>)"
  by (simp add: HUDLearn_init_def handler_table_def construct_handler_def HUDTrain_init_def
      EyeTrackerGaze_init_def emit_def ustr_def)

lemma init_infer:
  "HUDLearn_init Path m hud (ustr ''infer'') w =
     (Inl NotImplementedError, w\<lparr>trace := trace w @ [EyeTrackerGaze_new]\<rparr>)"
  by (simp add: HUDLearn_init_def handler_table_def construct_handler_def HUDInfer_init_def
      EyeTrackerGaze_init_def emit_def ustr_def)

lemma init_collect:
  "HUDLearn_init Path m hud (ustr ''collect'') w =
     (Inr \<lparr>hud_state = hud,
           handler = \<lparr>keyb_listener = \<lparr>started = False, alive = False\<rparr>,
                      logpath = Path (Path (LOG_RAW_ROOTDIR m) (LOG_HUD_SUBDIR m))
                                  (NOW m @ ustr ''.csv'')\<rparr>\<rparr>,
      if Path (LOG_RAW_ROOTDIR m) (LOG_HUD_SUBDIR m) \<in> set (dirs w)
      then w\<lparr>trace := trace w @ [EyeTrackerGaze_new, Listener_new]\<rparr>
      else w\<lparr>dirs := dirs w @ [Path (LOG_RAW_ROOTDIR m) (LOG_HUD_SUBDIR m)],
             trace := trace w @ [EyeTrackerGaze_new, Listener_new,
                Makedirs (Path (LOG_RAW_ROOTDIR m) (LOG_HUD_SUBDIR m))]\<rparr>)"
  by (simp add: HUDLearn_init_def handler_table_def construct_handler_def HUDDataCollect_init_def
      datafile_path_def Let_def world_defs ustr_def)

text \<open>
  C5, as the claim states it, fails: the constructor builds the gaze source,
  \<open>self.gazepoint = EyeTrackerGaze()\<close>, before it looks the mode up. For the tag
  \<open>Collect\<close> it raises \<open>ValueError\<close> with the constructor of the gaze source
  already run, so the rejected construction is not all-or-nothing.
\<close>

theorem unknown_mode_not_all_or_nothing_counterexample:
  "fst (HUDLearn_init posix_join ex_module () (ustr ''Collect'') ex_world) =
     Inl (ValueError (ustr ''Unsupported mode: Collect''))
   \<and> new_events ex_world (snd (HUDLearn_init posix_join ex_module () (ustr ''Collect'') ex_world))
       = [EyeTrackerGaze_new]
   \<and> \<not> all_or_nothing ex_world
         (HUDLearn_init posix_join ex_module () (ustr ''Collect'') ex_world)"
  by (simp add: HUDLearn_init_def handler_table_def EyeTrackerGaze_init_def emit_def
      all_or_nothing_def new_events_def ustr_def ex_world_def)

text \<open>
  C5, amended. For a mode tag other than \<open>collect\<close>, \<open>train\<close> and \<open>infer\<close> the
  constructor raises \<open>ValueError('Unsupported mode: <tag>')\<close> and returns no session.
  Up to that point it has run the constructor of the gaze source and nothing else:
  \<open>open\<close> and \<open>start\<close> of the gaze source are not called, no listener is created,
  no directory is created and no row is written.
\<close>

theorem unknown_mode_is_rejected:
  "mode \<notin> {ustr ''collect'', ustr ''train'', ustr ''infer''} \<Longrightarrow>
     fst (HUDLearn_init Path m hud mode w) = Inl (ValueError (ustr ''Unsupported mode: '' @ mode))
     \<and> new_events w (snd (HUDLearn_init Path m hud mode w)) = [EyeTrackerGaze_new]
     \<and> dirs (snd (HUDLearn_init Path m hud mode w)) = dirs w
     \<and> csv_rows (snd (HUDLearn_init Path m hud mode w)) = csv_rows w
     \<and> gaze_buf (snd (HUDLearn_init Path m hud mode w)) = gaze_buf w"
  by (simp add: init_unknown new_events_def)

theorem unknown_mode_is_rejected_witness:
  "ustr ''Collect'' \<notin> {ustr ''collect'', ustr ''train'', ustr ''infer''}
   \<and> HUDLearn_init posix_join ex_module () (ustr ''Collect'') ex_world =
       (Inl (ValueError (ustr ''Unsupported mode: Collect'')),
        ex_world\<lparr>trace := [EyeTrackerGaze_new]\<rparr>)"
proof -
  have h: "ustr ''Collect'' \<notin> {ustr ''collect'', ustr ''train'', ustr ''infer''}"
    by (simp add: ustr_def)
  have e: "HUDLearn_init posix_join ex_module () (ustr ''Collect'') ex_world =
       (Inl (ValueError (ustr ''Unsupported mode: Collect'')),
        ex_world\<lparr>trace := [EyeTrackerGaze_new]\<rparr>)"
    by (simp add: HUDLearn_init_def handler_table_def EyeTrackerGaze_init_def emit_def
        ustr_def ex_world_def)
  from unknown_mode_is_rejected [OF h, of posix_join ex_module "()" ex_world] h e
  show ?thesis by simp
qed

text \<open>
  C6. For the mode tags \<open>train\<close> and \<open>infer\<close> the constructor of the handler
  raises \<open>NotImplementedError\<close>, which leaves the constructor of the session as it
  is: no session is returned, so none can be started, and neither a listener nor a
  started gaze source exists (the one event is the construction of the
  \<open>EyeTrackerGaze\<close> object).
\<close>

theorem train_and_infer_not_implemented:
  "HUDLearn_init Path m hud (ustr ''train'') w =
     (Inl NotImplementedError, w\<lparr>trace := trace w @ [EyeTrackerGaze_new]\<rparr>)
   \<and> HUDLearn_init Path m hud (ustr ''infer'') w =
     (Inl NotImplementedError, w\<lparr>trace := trace w @ [EyeTrackerGaze_new]\<rparr>)
   \<and> construct_handler Path m HUDTrain_class w = (Inl NotImplementedError, w)
   \<and> construct_handler Path m HUDInfer_class w = (Inl NotImplementedError, w)"
  by (simp add: init_train init_infer construct_handler_def HUDTrain_init_def HUDInfer_init_def)

theorem train_and_infer_not_implemented_witness:
  "HUDLearn_init posix_join ex_module () (ustr ''train'') ex_world =
     (Inl NotImplementedError, ex_world\<lparr>trace := [EyeTrackerGaze_new]\<rparr>)
   \<and> HUDLearn_init posix_join ex_module () (ustr ''infer'') ex_world =
     (Inl NotImplementedError, ex_world\<lparr>trace := [EyeTrackerGaze_new]\<rparr>)"
  using train_and_infer_not_implemented [of posix_join ex_module "()" ex_world]
  by (simp add: ex_world_def)


section \<open>Order of startup and teardown\<close>

text \<open>
  C7, as the claim states it, fails: the session of the example is started and then
  stopped. Startup is open, start (gaze source), start (listener); its reversal would
  stop the listener first. \<open>stop\<close> stops and closes the gaze source first and the
  listener last.
\<close>

theorem stop_is_not_reverse_of_start_counterexample:
  "start ex_session ex_world =
     (Inr \<lparr>started = True, alive = True\<rparr>, ex_running, ex_world_started)
   \<and> new_events ex_world ex_world_started = [Gaze_open, Gaze_start, Listener_start, Sleep 1]
   \<and> new_events ex_world_started (snd (snd (stop ex_running ex_world_started))) =
       [Gaze_stop, Gaze_close, Listener_stop]
   \<and> reverse_teardown (new_events ex_world ex_world_started) =
       [Listener_stop, Gaze_stop, Gaze_close]
   \<and> new_events ex_world_started (snd (snd (stop ex_running ex_world_started))) \<noteq>
       reverse_teardown (new_events ex_world ex_world_started)"
  using ex_start
  by (simp add: stop_def reverse_teardown_def List.map_filter_def session_defs world_defs ex_defs)

text \<open>
  C7, amended. \<open>start\<close> of a session whose listener is not alive opens the gaze
  source, starts it and then starts the listener: a listener that was never started
  starts, \<open>start\<close> waits one second and the session is Running; a listener that had
  been started before raises \<open>RuntimeError\<close>, with the gaze source already opened and
  started. \<open>stop\<close> of a Running session stops the gaze source, closes it and then
  asks the listener to stop, in this order, and returns the listener: the gaze source
  comes first and the listener last in both.
\<close>

theorem start_and_stop_order:
  "(\<not> running s \<longrightarrow>
      new_events w (snd (snd (start s w))) =
        (if started (async_proc s) then [Gaze_open, Gaze_start]
         else [Gaze_open, Gaze_start, Listener_start, Sleep 1])
      \<and> fst (start s w) =
        (if started (async_proc s) then Inl RuntimeError
         else Inr (async_proc (fst (snd (start s w)))))
      \<and> running (fst (snd (start s w))) = (\<not> started (async_proc s)))
   \<and> (running s \<longrightarrow>
      new_events w (snd (snd (stop s w))) = [Gaze_stop, Gaze_close, Listener_stop]
      \<and> fst (stop s w) = async_proc s
      \<and> fst (snd (stop s w)) = s)"
proof (intro conjI impI)
  assume a: "\<not> running s"
  show "new_events w (snd (snd (start s w))) =
        (if started (async_proc s) then [Gaze_open, Gaze_start]
         else [Gaze_open, Gaze_start, Listener_start, Sleep 1])"
  proof (cases "started (async_proc s)")
    case True
    with a show ?thesis
      by (simp add: start_def running_def new_events_def world_defs)
  next
    case False
    with a show ?thesis
      by (simp add: start_fresh new_events_def)
  qed
  show "fst (start s w) =
        (if started (async_proc s) then Inl RuntimeError
         else Inr (async_proc (fst (snd (start s w)))))"
  proof (cases "started (async_proc s)")
    case True
    with a show ?thesis
      by (simp add: start_def running_def world_defs)
  next
    case False
    with a show ?thesis
      by (simp add: start_fresh async_proc_def set_async_proc_def)
  qed
  show "running (fst (snd (start s w))) = (\<not> started (async_proc s))"
  proof (cases "started (async_proc s)")
    case True
    with a show ?thesis
      by (simp add: start_def running_def world_defs)
  next
    case False
    with a show ?thesis
      by (simp add: start_fresh session_defs is_alive_def)
  qed
next
  assume a: "running s"
  then have e: "stop s w =
     (async_proc s, s, w\<lparr>trace := trace w @ [Gaze_stop, Gaze_close, Listener_stop]\<rparr>)"
    by (rule stop_alive)
  show "new_events w (snd (snd (stop s w))) = [Gaze_stop, Gaze_close, Listener_stop]"
    by (simp add: e new_events_def)
  show "fst (stop s w) = async_proc s"
    by (simp add: e)
  show "fst (snd (stop s w)) = s"
    by (simp add: e)
qed

text \<open>
  The fresh session, the session whose listener has run and ended, and the running
  session of the example.
\<close>

theorem start_and_stop_order_witness:
  "\<not> running ex_session \<and> \<not> started (async_proc ex_session)
   \<and> new_events ex_world (snd (snd (start ex_session ex_world))) =
       [Gaze_open, Gaze_start, Listener_start, Sleep 1]
   \<and> \<not> running ex_stopped \<and> started (async_proc ex_stopped)
   \<and> new_events ex_world (snd (snd (start ex_stopped ex_world))) = [Gaze_open, Gaze_start]
   \<and> fst (start ex_stopped ex_world) = Inl RuntimeError
   \<and> running ex_running
   \<and> new_events ex_world_started (snd (snd (stop ex_running ex_world_started))) =
       [Gaze_stop, Gaze_close, Listener_stop]"
  using start_and_stop_order [of ex_session ex_world]
    start_and_stop_order [of ex_stopped ex_world]
    start_and_stop_order [of ex_running ex_world_started]
  by (simp add: session_defs is_alive_def ex_defs)


section \<open>Properties of the key-press callback\<close>

text \<open>
  C1, as the claim states it, fails on the scenario of the specification: three
  buffered samples, the key \<open>A\<close> (identifier 97), the button at (150, 250). The
  callback succeeds and calls \<open>to_csv\<close> once with the path of the log, but the label
  it passes separates its three fields by a comma and a space, so the rows written are
  \<open>100,200,150, 250, 97\<close> and so on, not \<open>100,200,150,250,97\<close>.
\<close>

theorem keypress_label_counterexample:
  "fst (on_keypress ascii_lower ex_panel ex_running ex_key ex_world_gaze) = Inr ()
   \<and> new_events ex_world_gaze (snd (on_keypress ascii_lower ex_panel ex_running ex_key ex_world_gaze))
       = [Gaze_to_csv ex_logpath (ustr ''150, 250, 97'')]
   \<and> spec_label (PyInt 150, PyInt 250) (PyInt 97) = ustr ''150,250,97''
   \<and> ustr ''150, 250, 97'' \<noteq> spec_label (PyInt 150, PyInt 250) (PyInt 97)
   \<and> map snd (csv_rows (snd (on_keypress ascii_lower ex_panel ex_running ex_key ex_world_gaze)))
       = [ustr ''100,200,150, 250, 97'', ustr ''101,201,150, 250, 97'',
          ustr ''99,199,150, 250, 97'']"
  by (simp add: on_keypress_def key_to_id_def getattr_py_def and_then_def call_lower_def
      py_ord_def except_AttributeError_def ascii_lower_def Let_def spec_label_def
      new_events_def fmt_defs world_defs ex_defs)

text \<open>
  C1, amended. For every key press whose key identifier and button resolve, the
  callback builds the label \<open>{x}, {y}, {key_id}\<close> (a comma and a space between the
  fields) and calls \<open>to_csv\<close> exactly once, with the path of the session's log and
  that label. With the gaze source of the specification each buffered sample then
  becomes one row \<open>gaze_x,gaze_y,<label>\<close> of that file, oldest first, with no
  header, and the buffer is empty afterwards.
\<close>

theorem keypress_flushes_once_with_label:
  "key_to_id lower key = Inr key_id \<Longrightarrow> btn_frompayload (hud_state s) key_id = Inr btn \<Longrightarrow>
   label = py_format (fst (centroid btn)) @ ustr '', '' @ py_format (snd (centroid btn))
             @ ustr '', '' @ py_format key_id \<Longrightarrow>
   fst (on_keypress lower btn_frompayload s key w) = Inr ()
   \<and> new_events w (snd (on_keypress lower btn_frompayload s key w)) =
        [Gaze_to_csv (logpath (handler s)) label]
   \<and> csv_rows (snd (on_keypress lower btn_frompayload s key w)) =
        csv_rows w @
        map (\<lambda>g. (logpath (handler s),
                  str_int (fst g) @ ustr '','' @ str_int (snd g) @ ustr '','' @ label))
          (gaze_buf w)
   \<and> gaze_buf (snd (on_keypress lower btn_frompayload s key w)) = []"
  by (simp add: on_keypress_def Let_def to_csv_def csv_row_def emit_def new_events_def)

theorem keypress_flushes_once_with_label_witness:
  "key_to_id ascii_lower ex_key = Inr (PyInt 97)
   \<and> ex_panel (hud_state ex_running) (PyInt 97) = Inr \<lparr>centroid = (PyInt 150, PyInt 250)\<rparr>
   \<and> new_events ex_world_gaze (snd (on_keypress ascii_lower ex_panel ex_running ex_key ex_world_gaze))
       = [Gaze_to_csv ex_logpath (ustr ''150, 250, 97'')]
   \<and> csv_rows (snd (on_keypress ascii_lower ex_panel ex_running ex_key ex_world_gaze))
       = [(ex_logpath, ustr ''100,200,150, 250, 97''), (ex_logpath, ustr ''101,201,150, 250, 97''),
          (ex_logpath, ustr ''99,199,150, 250, 97'')]
   \<and> gaze_buf (snd (on_keypress ascii_lower ex_panel ex_running ex_key ex_world_gaze)) = []"
proof -
  have k: "key_to_id ascii_lower ex_key = Inr (PyInt 97)"
    by (simp add: key_to_id_def getattr_py_def and_then_def call_lower_def py_ord_def
        except_AttributeError_def ascii_lower_def ex_key_def)
  have b: "ex_panel (hud_state ex_running) (PyInt 97) = Inr \<lparr>centroid = (PyInt 150, PyInt 250)\<rparr>"
    by (simp add: ex_panel_def)
  have l: "ustr ''150, 250, 97'' =
      py_format (fst (centroid \<lparr>centroid = (PyInt 150, PyInt 250)\<rparr>)) @ ustr '', '' @
      py_format (snd (centroid \<lparr>centroid = (PyInt 150, PyInt 250)\<rparr>)) @ ustr '', '' @
      py_format (PyInt 97)"
    by (simp add: fmt_defs)
  note t = keypress_flushes_once_with_label
    [where lower = ascii_lower and key = ex_key and key_id = "PyInt 97"
       and btn_frompayload = ex_panel and s = ex_running
       and btn = "\<lparr>centroid = (PyInt 150, PyInt 250)\<rparr>"
       and label = "ustr ''150, 250, 97''" and w = ex_world_gaze, OF k b l]
  have p: "logpath (handler ex_running) = ex_logpath"
    by (simp add: ex_running_def)
  have g: "gaze_buf ex_world_gaze = [(100, 200), (101, 201), (99, 199)]"
    and c: "csv_rows ex_world_gaze = []"
    by (simp_all add: ex_world_gaze_def ex_world_def)
  have r: "str_int 100 @ ustr '','' @ str_int 200 @ ustr '','' @ ustr ''150, 250, 97'' =
        ustr ''100,200,150, 250, 97''"
      "str_int 101 @ ustr '','' @ str_int 201 @ ustr '','' @ ustr ''150, 250, 97'' =
        ustr ''101,201,150, 250, 97''"
      "str_int 99 @ ustr '','' @ str_int 199 @ ustr '','' @ ustr ''150, 250, 97'' =
        ustr ''99,199,150, 250, 97''"
    by (simp_all add: fmt_defs)
  from t k b show ?thesis
    by (simp add: p g c r)
qed


section \<open>Properties of the log path\<close>

lemma start_keeps_logpath: "logpath (handler (fst (snd (start s w)))) = logpath (handler s)"
  by (simp add: start_def set_async_proc_def Let_def split: sum.splits prod.splits)

lemma stop_keeps_logpath: "logpath (handler (fst (snd (stop s w)))) = logpath (handler s)"
  by (simp add: stop_def set_async_proc_def Let_def split: sum.splits prod.splits)

lemma on_keypress_rows_path:
  "fst ` set (drop (length (csv_rows w)) (csv_rows (snd (on_keypress lower bf s key w))))
     \<subseteq> {logpath (handler s)}"
  by (auto simp: on_keypress_def to_csv_def emit_def Let_def split: sum.splits)

text \<open>
  C9, as the claim states it, fails: the module is loaded at 10:00:12 and the session
  is constructed and started at 10:05:40. The log is named after the minute of the
  load, \<open>2020-03-07-10-00.csv\<close>, not after the minute at which the session starts.
\<close>

theorem logpath_not_from_session_start_counterexample:
  "HUDLearn_init posix_join (module_load ex_conf ex_world_load) () (ustr ''collect'') ex_world =
     (Inr ex_session,
      ex_world\<lparr>dirs := [ustr ''/data/raw/hud''],
         trace := [EyeTrackerGaze_new, Listener_new, Makedirs (ustr ''/data/raw/hud'')]\<rparr>)
   \<and> logpath (handler ex_session) = ustr ''/data/raw/hud/2020-03-07-10-00.csv''
   \<and> logpath (handler (fst (snd (start ex_session ex_world)))) =
       ustr ''/data/raw/hud/2020-03-07-10-00.csv''
   \<and> spec_logpath posix_join ex_conf ex_world = ustr ''/data/raw/hud/2020-03-07-10-05.csv''
   \<and> logpath (handler ex_session) \<noteq> spec_logpath posix_join ex_conf ex_world"
  using ex_start
  by (simp add: HUDLearn_init_def handler_table_def construct_handler_def HUDDataCollect_init_def
      datafile_path_def module_load_def spec_logpath_def Let_def fmt_defs world_defs ex_defs)

text \<open>
  C9, amended. A session in mode \<open>collect\<close> has one log path, fixed when its handler
  is constructed and kept by \<open>start\<close> and \<open>stop\<close>, and every row a key press
  writes goes to it. The path is the configured root directory joined with the
  configured subdirectory and with a file name that is the minute at which the
  module \<open>hud_learn\<close> was loaded (one reading of the clock per process, whatever its
  seconds and microseconds), with the extension \<open>.csv\<close>. The directory exists after
  the construction: it is created then if it did not exist, and left alone if it did.
\<close>

theorem session_logpath:
  "m = module_load conf w0 \<Longrightarrow>
   logdir = Path (EVENTLOG_RAW_ROOTDIR conf) (EVENTLOG_HUD_SUBDIR conf) \<Longrightarrow>
   HUDLearn_init Path m hud (ustr ''collect'') w = (r, w') \<Longrightarrow>
     (\<exists>s. r = Inr s
        \<and> logpath (handler s) = Path logdir (strftime_minute (clock w0) @ ustr ''.csv'')
        \<and> logpath (handler (fst (snd (start s w2)))) = logpath (handler s)
        \<and> logpath (handler (fst (snd (stop s w2)))) = logpath (handler s)
        \<and> fst ` set (drop (length (csv_rows w2))
              (csv_rows (snd (on_keypress lower bf s key w2)))) \<subseteq> {logpath (handler s)})
     \<and> path_exists logdir w'
     \<and> (path_exists logdir w \<longrightarrow>
          dirs w' = dirs w \<and> new_events w w' = [EyeTrackerGaze_new, Listener_new])
     \<and> (\<not> path_exists logdir w \<longrightarrow>
          new_events w w' = [EyeTrackerGaze_new, Listener_new, Makedirs logdir])
     \<and> module_load conf (w0\<lparr>clock := (clock w0)\<lparr>dt_second := sec, dt_microsecond := us\<rparr>\<rparr>) = m"
proof -
  assume m: "m = module_load conf w0"
    and d: "logdir = Path (EVENTLOG_RAW_ROOTDIR conf) (EVENTLOG_HUD_SUBDIR conf)"
    and i: "HUDLearn_init Path m hud (ustr ''collect'') w = (r, w')"
  have root: "LOG_RAW_ROOTDIR m = EVENTLOG_RAW_ROOTDIR conf"
    and sub: "LOG_HUD_SUBDIR m = EVENTLOG_HUD_SUBDIR conf"
    and now: "NOW m = strftime_minute (clock w0)"
    by (simp_all add: m module_load_def)
  have ic: "HUDLearn_init Path m hud (ustr ''collect'') w =
     (Inr \<lparr>hud_state = hud,
           handler = \<lparr>keyb_listener = \<lparr>started = False, alive = False\<rparr>,
                      logpath = Path logdir (strftime_minute (clock w0) @ ustr ''.csv'')\<rparr>\<rparr>,
      if logdir \<in> set (dirs w)
      then w\<lparr>trace := trace w @ [EyeTrackerGaze_new, Listener_new]\<rparr>
      else w\<lparr>dirs := dirs w @ [logdir],
             trace := trace w @ [EyeTrackerGaze_new, Listener_new, Makedirs logdir]\<rparr>)"
    unfolding init_collect root sub now d ..
  from i ic have r: "r = Inr \<lparr>hud_state = hud,
           handler = \<lparr>keyb_listener = \<lparr>started = False, alive = False\<rparr>,
                      logpath = Path logdir (strftime_minute (clock w0) @ ustr ''.csv'')\<rparr>\<rparr>"
    by simp
  from i ic have w': "w' = (if logdir \<in> set (dirs w)
      then w\<lparr>trace := trace w @ [EyeTrackerGaze_new, Listener_new]\<rparr>
      else w\<lparr>dirs := dirs w @ [logdir],
             trace := trace w @ [EyeTrackerGaze_new, Listener_new, Makedirs logdir]\<rparr>)"
    by simp
  have 1: "\<exists>s. r = Inr s
        \<and> logpath (handler s) = Path logdir (strftime_minute (clock w0) @ ustr ''.csv'')
        \<and> logpath (handler (fst (snd (start s w2)))) = logpath (handler s)
        \<and> logpath (handler (fst (snd (stop s w2)))) = logpath (handler s)
        \<and> fst ` set (drop (length (csv_rows w2))
              (csv_rows (snd (on_keypress lower bf s key w2)))) \<subseteq> {logpath (handler s)}"
    using on_keypress_rows_path [of w2 lower bf _ key]
    by (simp add: r start_keeps_logpath stop_keeps_logpath)
  have 2: "path_exists logdir w'"
    by (simp add: w' path_exists_def)
  have 3: "path_exists logdir w \<longrightarrow>
          dirs w' = dirs w \<and> new_events w w' = [EyeTrackerGaze_new, Listener_new]"
    by (simp add: w' path_exists_def new_events_def)
  have 4: "\<not> path_exists logdir w \<longrightarrow>
          new_events w w' = [EyeTrackerGaze_new, Listener_new, Makedirs logdir]"
    by (simp add: w' path_exists_def new_events_def)
  have 5: "module_load conf (w0\<lparr>clock := (clock w0)\<lparr>dt_second := sec, dt_microsecond := us\<rparr>\<rparr>) = m"
    by (simp add: m module_load_def strftime_minute_def)
  from 1 2 3 4 5 show ?thesis by blast
qed

theorem session_logpath_witness:
  "HUDLearn_init posix_join (module_load ex_conf ex_world_load) () (ustr ''collect'') ex_world =
     (Inr ex_session,
      ex_world\<lparr>dirs := [ustr ''/data/raw/hud''],
         trace := [EyeTrackerGaze_new, Listener_new, Makedirs (ustr ''/data/raw/hud'')]\<rparr>)
   \<and> \<not> path_exists (ustr ''/data/raw/hud'') ex_world
   \<and> logpath (handler ex_session) =
       posix_join (posix_join (ustr ''/data/raw'') (ustr ''hud''))
         (strftime_minute (clock ex_world_load) @ ustr ''.csv'')
   \<and> HUDLearn_init posix_join (module_load ex_conf ex_world_load) ()
       (ustr ''collect'') (ex_world\<lparr>dirs := [ustr ''/data/raw/hud'']\<rparr>) =
     (Inr ex_session,
      ex_world\<lparr>dirs := [ustr ''/data/raw/hud''],
         trace := [EyeTrackerGaze_new, Listener_new]\<rparr>)
   \<and> path_exists (ustr ''/data/raw/hud'') (ex_world\<lparr>dirs := [ustr ''/data/raw/hud'']\<rparr>)"
proof -
  have m: "module_load ex_conf ex_world_load = module_load ex_conf ex_world_load" ..
  have d: "ustr ''/data/raw/hud'' =
      posix_join (EVENTLOG_RAW_ROOTDIR ex_conf) (EVENTLOG_HUD_SUBDIR ex_conf)"
    by (simp add: ex_defs ustr_def)
  have i1: "HUDLearn_init posix_join (module_load ex_conf ex_world_load) ()
       (ustr ''collect'') ex_world =
     (Inr ex_session,
      ex_world\<lparr>dirs := [ustr ''/data/raw/hud''],
         trace := [EyeTrackerGaze_new, Listener_new, Makedirs (ustr ''/data/raw/hud'')]\<rparr>)"
    unfolding init_collect by (simp add: module_load_def fmt_defs ex_defs)
  have i2: "HUDLearn_init posix_join (module_load ex_conf ex_world_load) ()
       (ustr ''collect'') (ex_world\<lparr>dirs := [ustr ''/data/raw/hud'']\<rparr>) =
     (Inr ex_session,
      ex_world\<lparr>dirs := [ustr ''/data/raw/hud''],
         trace := [EyeTrackerGaze_new, Listener_new]\<rparr>)"
    unfolding init_collect by (simp add: module_load_def fmt_defs ex_defs)
  have p: "logpath (handler ex_session) =
       posix_join (posix_join (ustr ''/data/raw'') (ustr ''hud''))
         (strftime_minute (clock ex_world_load) @ ustr ''.csv'')"
  proof -
    have "\<exists>s. Inr ex_session = Inr s \<and> logpath (handler s) =
        posix_join (ustr ''/data/raw/hud'') (strftime_minute (clock ex_world_load) @ ustr ''.csv'')"
      using session_logpath
        [where ?w2.0 = ex_world and lower = ascii_lower and bf = ex_panel and key = ex_key
           and sec = 0 and us = 0, OF m d i1]
      by blast
    moreover have "posix_join (ustr ''/data/raw'') (ustr ''hud'') = ustr ''/data/raw/hud''"
      by (simp add: posix_join_def ustr_def)
    ultimately show ?thesis by simp
  qed
  have e: "path_exists (ustr ''/data/raw/hud'') (ex_world\<lparr>dirs := [ustr ''/data/raw/hud'']\<rparr>)"
    using session_logpath
      [where ?w2.0 = ex_world and lower = ascii_lower and bf = ex_panel and key = ex_key
         and sec = 0 and us = 0, OF m d i2]
    by (simp add: path_exists_def)
  have n: "\<not> path_exists (ustr ''/data/raw/hud'') ex_world"
    by (simp add: path_exists_def ex_world_def)
  from i1 i2 p e n show ?thesis by blast
qed

end
